theory Spec2Isabelle
  imports Main "HOL-Library.Word"
begin

section \<open>The avatar server (\<^verbatim>\<open>server.py\<close>)\<close>

text \<open>
  The server is a Flask application with two globals (\<^verbatim>\<open>client\<close> and
  \<^verbatim>\<open>reference_images\<close>), one validation helper, one converter that talks to the
  generative model, and four routes. The embedding below follows the source function by
  function. Python's \<^verbatim>\<open>str\<close> is modelled as a \<open>string\<close> of UTF-8 bytes, \<^verbatim>\<open>bytes\<close>
  as a list of 8-bit words, an exception by the text \<^verbatim>\<open>str(e)\<close> it carries (the only
  thing the handlers read from it), and the globals, the environment and the files under
  the working directory by an explicit state record. Log lines are not modelled: no
  handler reads them back.
\<close>

subsection \<open>Values exchanged with the libraries\<close>

type_synonym byte = "8 word"
type_synonym bytes = "byte list"

datatype exn = Exception string

fun str :: "exn \<Rightarrow> string" where
  "str (Exception msg) = msg"

text \<open>
  The dynamic type of \<^verbatim>\<open>part.inline_data.data\<close>: \<^verbatim>\<open>bytes\<close>, \<^verbatim>\<open>str\<close>, or anything
  else (\<^verbatim>\<open>None\<close> included), the three branches of the \<^verbatim>\<open>isinstance\<close> chain.
\<close>

datatype inline_payload = Bytes bytes | Str string | Other

text \<open>
  A response part. \<open>inline_data p = None\<close> stands for a part without the attribute
  \<^verbatim>\<open>inline_data\<close> or with a falsy one; \<open>Some d\<close> for a part whose
  \<^verbatim>\<open>inline_data.data\<close> is \<open>d\<close>. \<open>part_text\<close> is the attribute \<^verbatim>\<open>text\<close>.
\<close>

record part =
  inline_data :: "inline_payload option"
  part_text :: "string option"

text \<open>
  The response is read through \<^verbatim>\<open>response.candidates[0].content.parts\<close>. Each of
  \<^verbatim>\<open>candidates\<close>, \<^verbatim>\<open>content\<close> and \<^verbatim>\<open>parts\<close> can be \<^verbatim>\<open>None\<close>, where subscripting,
  attribute access and iteration raise.
\<close>

record model_content =
  parts :: "part list option"

record candidate =
  content :: "model_content option"

record response =
  candidates :: "candidate list option"

text \<open>An item of the \<^verbatim>\<open>contents\<close> list sent to the model: an image or a text.\<close>

datatype 'img content_item = Img 'img | Txt string

text \<open>One call of \<^verbatim>\<open>client.models.generate_content\<close>: the model name and the contents.\<close>

type_synonym 'img call = "string \<times> 'img content_item list"

datatype client = Client string

text \<open>
  The library functions the server calls and whose code is not part of the repository:
  Pillow's \<^verbatim>\<open>Image.open\<close>, \<^verbatim>\<open>img.mode\<close>, \<^verbatim>\<open>img.convert\<close>, \<^verbatim>\<open>img.copy\<close> and
  \<^verbatim>\<open>img.save(path, 'PNG')\<close>, \<^verbatim>\<open>base64.b64decode\<close>, the constructor
  \<^verbatim>\<open>genai.Client\<close> and the builtin \<^verbatim>\<open>int\<close> on a string. Each one that can raise
  returns a sum, \<open>Inl\<close> the exception. \<^verbatim>\<open>Image.open\<close> reads the header of the file
  only; \<^verbatim>\<open>copy\<close>, \<^verbatim>\<open>convert\<close> and \<^verbatim>\<open>save\<close> load the pixel data, and raise when
  it cannot be read. The type \<open>'img\<close> is Pillow's image object.
\<close>

record 'img platform =
  Image_open :: "bytes \<Rightarrow> exn + 'img"
  Image_mode :: "'img \<Rightarrow> string"
  Image_convert :: "'img \<Rightarrow> string \<Rightarrow> exn + 'img"
  Image_copy :: "'img \<Rightarrow> exn + 'img"
  Image_save_PNG :: "'img \<Rightarrow> exn + bytes"
  b64decode :: "string \<Rightarrow> exn + bytes"
  genai_Client :: "string \<Rightarrow> exn + client"
  py_int :: "string \<Rightarrow> exn + int"

text \<open>
  What surrounds one request and is outside the program's control: the clock, already
  formatted the two ways the handlers format it, and the reaction of the remote model to
  a call (a response, or an exception raised by the call).
\<close>

record 'img ambient =
  now_strftime :: string
  now_isoformat :: string
  generate_content :: "client \<Rightarrow> string \<Rightarrow> 'img content_item list \<Rightarrow> exn + response"

subsection \<open>Configuration and globals\<close>

definition UPLOAD_FOLDER :: string where
  "UPLOAD_FOLDER = ''public/outputs''"

definition REFERENCE_FOLDER :: string where
  "REFERENCE_FOLDER = ''public''"

definition MAX_FILE_SIZE :: nat where
  "MAX_FILE_SIZE = 10 * 1024 * 1024"

definition ALLOWED_EXTENSIONS :: "string set" where
  "ALLOWED_EXTENSIONS = {''png'', ''jpg'', ''jpeg'', ''gif'', ''bmp'', ''webp''}"

text \<open>
  The process state: the two globals, the environment variables (after
  \<^verbatim>\<open>load_dotenv\<close>) and the files below the working directory, keyed by relative path.
\<close>

record 'img state =
  client :: "client option"
  reference_images :: "'img list"
  environ :: "string \<rightharpoonup> string"
  fs :: "string \<rightharpoonup> bytes"

subsection \<open>\<^verbatim>\<open>init_genai\<close> and \<^verbatim>\<open>load_reference_images\<close>\<close>

text \<open>
  \<^verbatim>\<open>if not api_key\<close> is true for an unset variable and for an empty one. The function
  returns its boolean together with the state, whose \<open>client\<close> it sets on success.
\<close>

definition init_genai :: "'img platform \<Rightarrow> 'img state \<Rightarrow> bool \<times> 'img state" where
  "init_genai P st =
     (case environ st ''GEMINI_API_KEY'' of
        None \<Rightarrow> (False, st)
      | Some api_key \<Rightarrow>
          if api_key = [] then (False, st)
          else (case genai_Client P api_key of
                  Inl e \<Rightarrow> (False, st)
                | Inr c \<Rightarrow> (True, st\<lparr>client := Some c\<rparr>)))"

definition ref_paths :: "string list" where
  "ref_paths =
     [REFERENCE_FOLDER @ ''/reference-avatar-2.png'',
      REFERENCE_FOLDER @ ''/reference-avatar-3.png'',
      REFERENCE_FOLDER @ ''/reference-image-6.png'']"

text \<open>
  One turn of the loop over \<^verbatim>\<open>ref_paths\<close> (lines 73 to 85): a missing file is skipped
  with a warning; otherwise the file is opened, converted to RGB when its mode is
  another one, and a copy of the image is appended. Any exception while opening,
  converting or copying is caught, and the file skipped.
\<close>

definition load_one :: "'img platform \<Rightarrow> (string \<rightharpoonup> bytes) \<Rightarrow> string \<Rightarrow> 'img list \<Rightarrow> 'img list" where
  "load_one P disk ref_path acc =
     (case disk ref_path of
        None \<Rightarrow> acc
      | Some raw \<Rightarrow>
          (case Image_open P raw of
             Inl e \<Rightarrow> acc
           | Inr img \<Rightarrow>
               (case (if Image_mode P img \<noteq> ''RGB''
                      then Image_convert P img ''RGB'' else Inr img) of
                  Inl e \<Rightarrow> acc
                | Inr img' \<Rightarrow>
                    (case Image_copy P img' of
                       Inl e \<Rightarrow> acc
                     | Inr copied \<Rightarrow> acc @ [copied]))))"

primrec load_loop :: "'img platform \<Rightarrow> (string \<rightharpoonup> bytes) \<Rightarrow> string list \<Rightarrow> 'img list \<Rightarrow> 'img list" where
  "load_loop P disk [] acc = acc"
| "load_loop P disk (ref_path # rest) acc = load_loop P disk rest (load_one P disk ref_path acc)"

definition load_reference_images :: "'img platform \<Rightarrow> 'img state \<Rightarrow> 'img state" where
  "load_reference_images P st = st\<lparr>reference_images := load_loop P (fs st) ref_paths []\<rparr>"

subsection \<open>\<^verbatim>\<open>allowed_file\<close>\<close>

text \<open>
  \<^verbatim>\<open>str.lower\<close> on the ASCII letters. A character outside ASCII is left as it is; Python
  lower-cases some of them, but never to one of the letters the allowed extensions are
  written with, so membership in \<open>ALLOWED_EXTENSIONS\<close> is the same.
\<close>

definition lower_char :: "char \<Rightarrow> char" where
  "lower_char c =
     (case map_of (zip ''ABCDEFGHIJKLMNOPQRSTUVWXYZ'' ''abcdefghijklmnopqrstuvwxyz'') c of
        Some d \<Rightarrow> d
      | None \<Rightarrow> c)"

definition lower :: "string \<Rightarrow> string" where
  "lower s = map lower_char s"

text \<open>
  \<^verbatim>\<open>s.rsplit('.', 1)\<close>: the one-element list \<^verbatim>\<open>[s]\<close> when \<open>s\<close> has no dot, otherwise
  what precedes the last dot and what follows it.
\<close>

definition rsplit_dot :: "string \<Rightarrow> string list" where
  "rsplit_dot s =
     (if CHR ''.'' \<in> set s
      then [rev (tl (dropWhile (\<lambda>c. c \<noteq> CHR ''.'') (rev s))),
            rev (takeWhile (\<lambda>c. c \<noteq> CHR ''.'') (rev s))]
      else [s])"

text \<open>
  The index \<open>1\<close> is read only behind the test for a dot (Python's \<^verbatim>\<open>and\<close> does not
  evaluate its right operand otherwise), where the list has two elements.
\<close>

definition allowed_file :: "string \<Rightarrow> bool" where
  "allowed_file filename =
     (CHR ''.'' \<in> set filename \<and> lower (rsplit_dot filename ! 1) \<in> ALLOWED_EXTENSIONS)"

subsection \<open>\<^verbatim>\<open>convert_to_notion_style\<close>\<close>

text \<open>The bullet character U+2022 of the prompt, in UTF-8.\<close>

definition bullet :: string where
  "bullet = [CHR 0xE2, CHR 0x80, CHR 0xA2]"

definition prompt_lines :: "string list" where
  "prompt_lines =
     [''STYLE REFERENCE EXAMPLES: The first 3 images show the EXACT Notion avatar style to replicate.'',
      '''',
      ''TASK: Convert the final photo into the same minimalist black and white avatar style as the reference examples.'',
      '''',
      ''CRITICAL: FACE AND HEAD ONLY'',
      bullet @ '' Show ONLY the person's face and head - nothing below the neck'',
      bullet @ '' Even if the source photo shows shoulders, chest, or body - ignore these parts'',
      bullet @ '' Focus exclusively on facial features, hair, and head shape'',
      bullet @ '' Create a head-and-shoulders composition but only draw the head part'',
      '''',
      ''STYLE REQUIREMENTS (match references exactly):'',
      bullet @ '' Pure black lines on white background'',
      bullet @ '' Clean, simple geometric shapes'',
      bullet @ '' Minimalist cartoon illustration'',
      bullet @ '' Square format (1:1 aspect ratio)'',
      bullet @ '' Thick, bold black line weight (not thin lines)'',
      bullet @ '' Strong contrast and bold styling'',
      '''',
      ''ANALYZE THE PERSON CAREFULLY:'',
      bullet @ '' Look ONLY at what is actually visible in the photo'',
      bullet @ '' Hair style, glasses, face shape, actual facial hair presence'',
      bullet @ '' Do NOT assume or add features that aren't clearly visible'',
      '''',
      ''CONVERT FOLLOWING THESE RULES:'',
      '''',
      ''FACE:'',
      bullet @ '' Simple oval/circle matching their actual face shape'',
      bullet @ '' EYES: Be creative but accurate - use ovals, circles, or simple shapes that match their eye shape and expression. Can show eyelashes, eye direction, or subtle expressions if visible in source'',
      bullet @ '' EYEBROWS: Match their actual eyebrow shape and thickness - can be straight lines, arches, or thick shapes depending on the person's real eyebrows'',
      bullet @ '' Minimal nose indication (small line or dot)  '',
      bullet @ '' Simple curved line for mouth that reflects their expression'',
      bullet @ '' Stay true to their actual facial structure and expressions'',
      '''',
      ''HAIR:'',
      bullet @ '' Bold, solid black shapes with thick outlines'',
      bullet @ '' Match their actual hair volume and style'',
      bullet @ '' For curly hair: simple wavy shapes, not overly dense'',
      bullet @ '' For straight hair: clean geometric shapes'',
      bullet @ '' Keep hair proportionate and realistic to source'',
      bullet @ '' Use thick black lines consistent with Notion style'',
      '''',
      ''FACIAL HAIR - CRITICAL RULE:'',
      bullet @ '' ONLY add facial hair if it's CLEARLY visible in the source photo'',
      bullet @ '' If the person appears clean-shaven, DO NOT add any beard or mustache'',
      bullet @ '' If uncertain about facial hair presence, leave the face clean'',
      bullet @ '' When facial hair IS present: use light, minimal black shapes'',
      '''',
      ''GENDER REPRESENTATION:'',
      bullet @ '' Focus on accuracy over gender stereotypes'',
      bullet @ '' Use subtle differences in face shape and features'',
      bullet @ '' Don't over-emphasize masculine/feminine traits'',
      bullet @ '' Eye and eyebrow styles should match the individual, not gender assumptions'',
      '''',
      ''ACCESSORIES:'',
      bullet @ '' Glasses: Simple geometric frame shapes'',
      bullet @ '' Keep essential identifying accessories'',
      '''',
      ''COMPOSITION:'',
      bullet @ '' HEAD AND FACE ONLY - no clothing, no body parts'',
      bullet @ '' If you must show a tiny bit of neck/collar area, keep it minimal'',
      bullet @ '' Focus 95% on the face and hair'',
      '''',
      ''FINAL INSTRUCTION:'',
      ''Create a clean, conservative Notion-style avatar that:'',
      bullet @ '' Accurately represents ONLY what's visible in the source photo'',
      bullet @ '' Uses subtle, proportionate styling - not heavy or exaggerated'',
      bullet @ '' Preserves the person's actual identity without adding fictional elements'',
      bullet @ '' Matches the reference style while staying true to the source image'',
      '''',
      ''REMEMBER: When in doubt, be conservative and accurate rather than stylized.'']"

primrec join_lines :: "string list \<Rightarrow> string" where
  "join_lines [] = []"
| "join_lines (l # ls) = (if ls = [] then l else l @ CHR 0x0A # join_lines ls)"

definition prompt :: string where
  "prompt = join_lines prompt_lines"

definition model_name :: string where
  "model_name = ''gemini-2.5-flash-image-preview''"

text \<open>
  The extraction of lines 197 to 241, on a response. Reading
  \<^verbatim>\<open>response.candidates[0].content.parts\<close> raises \<^verbatim>\<open>TypeError\<close> on \<^verbatim>\<open>None\<close>
  candidates, \<^verbatim>\<open>IndexError\<close> on an empty list, \<^verbatim>\<open>AttributeError\<close> on a \<^verbatim>\<open>None\<close>
  content and \<^verbatim>\<open>TypeError\<close> on \<^verbatim>\<open>None\<close> parts, and the exception leaves the
  function through the outer \<^verbatim>\<open>except ... raise\<close>. The list comprehension keeps the
  data of the parts with inline data, in order. An exception of \<^verbatim>\<open>Image.open\<close> or
  \<^verbatim>\<open>b64decode\<close> is caught by the inner \<^verbatim>\<open>except\<close>, which returns \<^verbatim>\<open>None\<close>.
\<close>

definition NoneType :: string where
  "NoneType = [CHR 0x27] @ ''NoneType'' @ [CHR 0x27]"

definition extract_image :: "'img platform \<Rightarrow> response \<Rightarrow> exn + 'img option" where
  "extract_image P resp =
     (case candidates resp of
        None \<Rightarrow> Inl (Exception (NoneType @ '' object is not subscriptable''))
      | Some [] \<Rightarrow> Inl (Exception ''list index out of range'')
      | Some (cand # _) \<Rightarrow>
          (case content cand of
             None \<Rightarrow>
               Inl (Exception (NoneType @ '' object has no attribute '' @
                                 [CHR 0x27] @ ''parts'' @ [CHR 0x27]))
           | Some ct \<Rightarrow>
               (case parts ct of
                  None \<Rightarrow> Inl (Exception (NoneType @ '' object is not iterable''))
                | Some ps \<Rightarrow>
                    let image_parts = List.map_filter inline_data ps in
                    (case image_parts of
                       image_data # _ \<Rightarrow>
                         (case image_data of
                            Bytes raw \<Rightarrow>
                              (case Image_open P raw of
                                 Inl e \<Rightarrow> Inr None
                               | Inr generated_image \<Rightarrow> Inr (Some generated_image))
                          | Str s \<Rightarrow>
                              (case b64decode P s of
                                 Inl e \<Rightarrow> Inr None
                               | Inr decoded_data \<Rightarrow>
                                   (case Image_open P decoded_data of
                                      Inl e \<Rightarrow> Inr None
                                    | Inr generated_image \<Rightarrow> Inr (Some generated_image)))
                          | Other \<Rightarrow> Inr None)
                     | [] \<Rightarrow> Inr None))))"

text \<open>
  The converter returns its result (an exception, \<^verbatim>\<open>None\<close> or an image) and the calls
  it made to the remote model.
\<close>

definition convert_to_notion_style ::
  "'img platform \<Rightarrow> 'img ambient \<Rightarrow> 'img state \<Rightarrow> 'img \<Rightarrow> (exn + 'img option) \<times> 'img call list" where
  "convert_to_notion_style P A st user_image =
     (case client st of
        None \<Rightarrow> (Inl (Exception ''GenAI client not initialized''), [])
      | Some c \<Rightarrow>
          let contents = map Img (reference_images st) @ [Img user_image] @ [Txt prompt] in
          (case generate_content A c model_name contents of
             Inl e \<Rightarrow> (Inl e, [(model_name, contents)])
           | Inr resp \<Rightarrow> (extract_image P resp, [(model_name, contents)])))"

subsection \<open>The routes\<close>

record upload =
  filename :: string
  stream :: bytes

text \<open>
  A request to \<^verbatim>\<open>/convert\<close>: its multipart files by field name. Reading
  \<^verbatim>\<open>request.files\<close> can raise (a body that cannot be parsed), which the outermost
  \<^verbatim>\<open>except\<close> of the handler turns into the generic 500.
\<close>

record request =
  files :: "exn + (string \<rightharpoonup> upload)"

record result_entry =
  fileName :: string
  filePath :: string
  mimeType :: string

datatype body =
    ErrorJson string
  | SuccessJson bool string "result_entry list"
  | HealthJson string string bool nat bool
  | FileBody bytes
  | NotFound

record http_response =
  status :: nat
  payload :: body

definition jsonify_error :: "string \<Rightarrow> nat \<Rightarrow> http_response" where
  "jsonify_error msg code = \<lparr>status = code, payload = ErrorJson msg\<rparr>"

text \<open>
  Lines 295 to 299: the upload is opened and converted to RGB when its mode is another
  one. Either step can raise.
\<close>

definition load_user_image :: "'img platform \<Rightarrow> bytes \<Rightarrow> exn + 'img" where
  "load_user_image P raw =
     (case Image_open P raw of
        Inl e \<Rightarrow> Inl e
      | Inr opened \<Rightarrow>
          if Image_mode P opened \<noteq> ''RGB'' then Image_convert P opened ''RGB'' else Inr opened)"

text \<open>
  The inner \<^verbatim>\<open>try\<close> block of the handler (lines 294 to 327), entered once the upload
  has passed validation. Every exception raised inside becomes a 500 whose message
  quotes it. The result is the state (the block writes the output file), the HTTP
  response and the calls made to the remote model. What a failed \<^verbatim>\<open>save\<close> leaves at
  the path is the library's matter; the model keeps the disk as it was there, and
  nothing below speaks about the disk after a failed save.
\<close>

definition process_image ::
  "'img platform \<Rightarrow> 'img ambient \<Rightarrow> 'img state \<Rightarrow> upload \<Rightarrow> 'img state \<times> http_response \<times> 'img call list" where
  "process_image P A st file =
     (case load_user_image P (stream file) of
        Inl e \<Rightarrow> (st, jsonify_error (''Error processing image: '' @ str e) 500, [])
      | Inr user_image \<Rightarrow>
          (case convert_to_notion_style P A st user_image of
             (Inl e, cs) \<Rightarrow> (st, jsonify_error (''Error processing image: '' @ str e) 500, cs)
           | (Inr None, cs) \<Rightarrow> (st, jsonify_error ''Failed to generate avatar'' 500, cs)
           | (Inr (Some generated_image), cs) \<Rightarrow>
               let name = ''notion_avatar_'' @ now_strftime A @ ''.png'';
                   filepath = UPLOAD_FOLDER @ ''/'' @ name
               in (case Image_save_PNG P generated_image of
                     Inl e \<Rightarrow> (st, jsonify_error (''Error processing image: '' @ str e) 500, cs)
                   | Inr png \<Rightarrow>
                       (st\<lparr>fs := (fs st)(filepath \<mapsto> png)\<rparr>,
                        \<lparr>status = 200,
                         payload = SuccessJson True ''Image converted successfully''
                           [\<lparr>fileName = name,
                             filePath = ''/outputs/'' @ name,
                             mimeType = ''image/png''\<rparr>]\<rparr>,
                        cs))))"

text \<open>
  The handler of \<^verbatim>\<open>POST /convert\<close>, its checks in the order of the source. The size
  is where the stream ends (\<^verbatim>\<open>seek(0, 2)\<close>, \<^verbatim>\<open>tell()\<close>).
\<close>

definition convert_image ::
  "'img platform \<Rightarrow> 'img ambient \<Rightarrow> 'img state \<Rightarrow> request \<Rightarrow> 'img state \<times> http_response \<times> 'img call list" where
  "convert_image P A st req =
     (if client st = None then (st, jsonify_error ''GenAI client not initialized'' 500, [])
      else case files req of
        Inl e \<Rightarrow> (st, jsonify_error ''Internal server error'' 500, [])
      | Inr uploaded \<Rightarrow>
          (case uploaded ''image'' of
             None \<Rightarrow> (st, jsonify_error ''No image file uploaded'' 400, [])
           | Some file \<Rightarrow>
               if filename file = [] then (st, jsonify_error ''No file selected'' 400, [])
               else if \<not> allowed_file (filename file)
               then (st, jsonify_error
                      ''Invalid file type. Please upload PNG, JPG, JPEG, GIF, BMP, or WebP'' 400, [])
               else if length (stream file) > MAX_FILE_SIZE
               then (st, jsonify_error ''File too large. Maximum size is 10MB'' 400, [])
               else process_image P A st file))"

text \<open>
  The other routes. \<^verbatim>\<open>send_from_directory\<close> answers 404 for a file that is not there.
\<close>

definition send_from_directory :: "'img state \<Rightarrow> string \<Rightarrow> string \<Rightarrow> http_response" where
  "send_from_directory st directory name =
     (case fs st (directory @ ''/'' @ name) of
        None \<Rightarrow> \<lparr>status = 404, payload = NotFound\<rparr>
      | Some raw \<Rightarrow> \<lparr>status = 200, payload = FileBody raw\<rparr>)"

definition index :: "'img state \<Rightarrow> http_response" where
  "index st = send_from_directory st ''public'' ''index.html''"

definition health_check :: "'img ambient \<Rightarrow> 'img state \<Rightarrow> http_response" where
  "health_check A st =
     \<lparr>status = 200,
      payload = HealthJson ''OK'' (now_isoformat A) (client st \<noteq> None)
                  (length (reference_images st))
                  (case environ st ''GEMINI_API_KEY'' of None \<Rightarrow> False | Some k \<Rightarrow> k \<noteq> [])\<rparr>"

definition serve_output :: "'img state \<Rightarrow> string \<Rightarrow> http_response" where
  "serve_output st name = send_from_directory st UPLOAD_FOLDER name"

datatype route = GET_index | GET_health | POST_convert request | GET_outputs string

definition handle ::
  "'img platform \<Rightarrow> 'img ambient \<Rightarrow> 'img state \<Rightarrow> route \<Rightarrow> 'img state \<times> http_response \<times> 'img call list" where
  "handle P A st r =
     (case r of
        GET_index \<Rightarrow> (st, index st, [])
      | GET_health \<Rightarrow> (st, health_check A st, [])
      | POST_convert req \<Rightarrow> convert_image P A st req
      | GET_outputs name \<Rightarrow> (st, serve_output st name, []))"

text \<open>The state after a sequence of requests, each handled in its own surroundings.\<close>

primrec serve :: "'img platform \<Rightarrow> ('img ambient \<times> route) list \<Rightarrow> 'img state \<Rightarrow> 'img state" where
  "serve P [] st = st"
| "serve P (x # xs) st = serve P xs (fst (handle P (fst x) st (snd x)))"

text \<open>
  What one reference file contributes to the set, in the words of the property proved
  below about \<open>load_loop\<close>: the image of a file that exists, opens (and converts to RGB
  where its mode is another one) and can be copied; nothing otherwise.
\<close>

definition reference_image :: "'img platform \<Rightarrow> (string \<rightharpoonup> bytes) \<Rightarrow> string \<Rightarrow> 'img option" where
  "reference_image P disk ref_path =
     (case disk ref_path of
        None \<Rightarrow> None
      | Some raw \<Rightarrow>
          (case load_user_image P raw of
             Inl e \<Rightarrow> None
           | Inr rgb \<Rightarrow>
               (case Image_copy P rgb of
                  Inl e \<Rightarrow> None
                | Inr copied \<Rightarrow> Some copied)))"

subsection \<open>The entry point\<close>

text \<open>
  The \<^verbatim>\<open>__main__\<close> block: \<^verbatim>\<open>exit(1)\<close> when \<^verbatim>\<open>init_genai\<close> fails; otherwise the
  reference images are loaded, the port is \<^verbatim>\<open>int(os.getenv('FLASK_PORT', 5000))\<close>, where
  \<^verbatim>\<open>int\<close> of a string that is no number raises and nothing catches it, and the server
  starts on that port.
\<close>

datatype 'img process = Exit nat | Uncaught exn | Serving "'img state" int

definition main :: "'img platform \<Rightarrow> (string \<rightharpoonup> string) \<Rightarrow> (string \<rightharpoonup> bytes) \<Rightarrow> 'img process" where
  "main P env disk =
     (case init_genai P \<lparr>client = None, reference_images = [], environ = env, fs = disk\<rparr> of
        (False, st) \<Rightarrow> Exit 1
      | (True, st) \<Rightarrow>
          let st' = load_reference_images P st in
          (case (case environ st' ''FLASK_PORT'' of
                   None \<Rightarrow> Inr 5000
                 | Some s \<Rightarrow> py_int P s) of
             Inl e \<Rightarrow> Uncaught e
           | Inr port \<Rightarrow> Serving st' port))"

subsection \<open>A small library to run the server on\<close>

text \<open>
  An instance of \<open>platform\<close> on which the definitions above compute. Its images are a
  mode and pixel bytes; an encoded image is one byte naming the container (\<open>0x89\<close>,
  \<open>0xFF\<close> and \<open>0x47\<close>, the first bytes of PNG, JPEG and GIF files) before the pixels,
  and the encoder writes the first container only. A file that ends after that byte
  opens, but copying it fails. Base64 is the strict decoding of RFC 4648, and \<open>int\<close>
  reads unsigned decimal numbers.
\<close>

datatype toy_image = Toy string bytes

definition toy_open :: "bytes \<Rightarrow> exn + toy_image" where
  "toy_open raw =
     (case raw of
        [] \<Rightarrow> Inl (Exception ''cannot identify image file'')
      | tag # px \<Rightarrow>
          if tag = 0x89 \<or> tag = 0xFF then Inr (Toy ''RGB'' px)
          else if tag = 0x47 then Inr (Toy ''P'' px)
          else Inl (Exception ''cannot identify image file''))"

fun toy_mode :: "toy_image \<Rightarrow> string" where
  "toy_mode (Toy m px) = m"

fun toy_convert :: "toy_image \<Rightarrow> string \<Rightarrow> exn + toy_image" where
  "toy_convert (Toy m px) m' = Inr (Toy m' px)"

fun toy_copy :: "toy_image \<Rightarrow> exn + toy_image" where
  "toy_copy (Toy m px) =
     (if px = [] then Inl (Exception ''image file is truncated'') else Inr (Toy m px))"

fun toy_save_PNG :: "toy_image \<Rightarrow> exn + bytes" where
  "toy_save_PNG (Toy m px) = Inr (0x89 # px)"

definition b64_value :: "char \<Rightarrow> nat option" where
  "b64_value c =
     map_of (zip ''ABCDEFGHIJKLMNOPQRSTUVWXYZabcdefghijklmnopqrstuvwxyz0123456789+/'' [0..<64]) c"

definition b64_quad :: "char \<Rightarrow> char \<Rightarrow> char \<Rightarrow> char \<Rightarrow> bytes option" where
  "b64_quad a b c d =
     (case (b64_value a, b64_value b) of
        (Some x, Some y) \<Rightarrow>
          if c = CHR ''='' \<and> d = CHR ''='' then Some [of_nat (x * 4 + y div 16)]
          else (case b64_value c of
                  None \<Rightarrow> None
                | Some z \<Rightarrow>
                    if d = CHR ''=''
                    then Some [of_nat (x * 4 + y div 16), of_nat ((y mod 16) * 16 + z div 4)]
                    else (case b64_value d of
                            None \<Rightarrow> None
                          | Some w \<Rightarrow>
                              Some [of_nat (x * 4 + y div 16),
                                    of_nat ((y mod 16) * 16 + z div 4),
                                    of_nat ((z mod 4) * 64 + w)]))
      | _ \<Rightarrow> None)"

fun toy_b64decode :: "string \<Rightarrow> exn + bytes" where
  "toy_b64decode [] = Inr []"
| "toy_b64decode (a # b # c # d # rest) =
     (case b64_quad a b c d of
        None \<Rightarrow> Inl (Exception ''Incorrect padding'')
      | Some out \<Rightarrow>
          if rest = [] then Inr out
          else if length out < 3 then Inl (Exception ''Incorrect padding'')
          else (case toy_b64decode rest of
                  Inl e \<Rightarrow> Inl e
                | Inr tail \<Rightarrow> Inr (out @ tail)))"
| "toy_b64decode s = Inl (Exception ''Incorrect padding'')"

definition toy_int :: "string \<Rightarrow> exn + int" where
  "toy_int s =
     (if s \<noteq> [] \<and> list_all (\<lambda>c. c \<in> set ''0123456789'') s
      then Inr (foldl (\<lambda>n c. 10 * n + int (the (map_of (zip ''0123456789'' [0..<10]) c))) 0 s)
      else Inl (Exception (''invalid literal for int() with base 10: '' @ s)))"

definition toy :: "toy_image platform" where
  "toy =
     \<lparr>Image_open = toy_open,
      Image_mode = toy_mode,
      Image_convert = toy_convert,
      Image_copy = toy_copy,
      Image_save_PNG = toy_save_PNG,
      b64decode = toy_b64decode,
      genai_Client = (\<lambda>key. Inr (Client key)),
      py_int = toy_int\<rparr>"

text \<open>Surroundings in which the remote model reacts to every call in the given way.\<close>

definition replying :: "exn + response \<Rightarrow> toy_image ambient" where
  "replying reaction =
     \<lparr>now_strftime = ''20250101_120000'',
      now_isoformat = ''2025-01-01T12:00:00'',
      generate_content = (\<lambda>c m contents. reaction)\<rparr>"

definition inline_part :: "inline_payload \<Rightarrow> part" where
  "inline_part d = \<lparr>inline_data = Some d, part_text = None\<rparr>"

definition text_part :: "string \<Rightarrow> part" where
  "text_part t = \<lparr>inline_data = None, part_text = Some t\<rparr>"

definition one_candidate :: "part list \<Rightarrow> response" where
  "one_candidate ps = \<lparr>candidates = Some [\<lparr>content = Some \<lparr>parts = Some ps\<rparr>\<rparr>]\<rparr>"

definition posting :: "string \<Rightarrow> bytes \<Rightarrow> request" where
  "posting name raw = \<lparr>files = Inr [''image'' \<mapsto> \<lparr>filename = name, stream = raw\<rparr>]\<rparr>"

definition ready :: "toy_image list \<Rightarrow> toy_image state" where
  "ready refs =
     \<lparr>client = Some (Client ''key''), reference_images = refs,
      environ = [''GEMINI_API_KEY'' \<mapsto> ''key''], fs = Map.empty\<rparr>"

text \<open>The same library with a client constructor that refuses every key.\<close>

definition toy_refusing :: "toy_image platform" where
  "toy_refusing = toy\<lparr>genai_Client := (\<lambda>key. Inl (Exception ''invalid API key''))\<rparr>"

text \<open>
  Three disks: all the reference files; the first one only; all of them, the second
  one ending after its first byte.
\<close>

definition disk_three :: "string \<rightharpoonup> bytes" where
  "disk_three =
     [''public/reference-avatar-2.png'' \<mapsto> [0x89, 1],
      ''public/reference-avatar-3.png'' \<mapsto> [0x47, 2],
      ''public/reference-image-6.png'' \<mapsto> [0x89, 3]]"

definition disk_one :: "string \<rightharpoonup> bytes" where
  "disk_one = [''public/reference-avatar-2.png'' \<mapsto> [0x89, 1]]"

definition disk_truncated :: "string \<rightharpoonup> bytes" where
  "disk_truncated =
     [''public/reference-avatar-2.png'' \<mapsto> [0x89, 1],
      ''public/reference-avatar-3.png'' \<mapsto> [0x89],
      ''public/reference-image-6.png'' \<mapsto> [0x89, 3]]"

section \<open>Properties\<close>

subsection \<open>The extension check\<close>

lemma rsplit_dot_last:
  assumes "CHR ''.'' \<notin> set suf"
  shows "rsplit_dot (pre @ CHR ''.'' # suf) = [pre, suf]"
proof -
  let ?P = "\<lambda>c. c \<noteq> CHR ''.''"
  have "takeWhile ?P (rev suf @ CHR ''.'' # rev pre) = rev suf @ takeWhile ?P (CHR ''.'' # rev pre)"
    by (rule takeWhile_append2) (use assms in auto)
  moreover have "dropWhile ?P (rev suf @ CHR ''.'' # rev pre) = dropWhile ?P (CHR ''.'' # rev pre)"
    by (rule dropWhile_append2) (use assms in auto)
  ultimately show ?thesis
    by (simp add: rsplit_dot_def)
qed

text \<open>Every name with a dot splits at its last dot, so the two cases below are all names.\<close>

lemma split_at_last_dot:
  assumes "CHR ''.'' \<in> set s"
  shows "\<exists>pre suf. s = pre @ CHR ''.'' # suf \<and> CHR ''.'' \<notin> set suf"
  using assms by (metis split_list_last)

lemma lower_examples:
  "lower ''png'' = ''png''" "lower ''exe'' = ''exe''" "lower ''JPEG'' = ''jpeg''"
  "lower ''JPG'' = ''jpg''"
  by (simp_all add: lower_def lower_char_def)

text \<open>
  C9. The extension check looks only at what follows the last dot. A name without a dot
  is rejected, whatever it is; a name \<open>pre.suf\<close> whose \<open>suf\<close> has no dot is accepted
  exactly when \<open>suf\<close>, lower-cased, is an allowed extension, whatever \<open>pre\<close> is. So
  \<open>png\<close> is rejected, \<open>a.exe.png\<close> accepted and \<open>a.png.exe\<close> rejected.
\<close>

theorem allowed_file_last_suffix:
  "(CHR ''.'' \<notin> set name \<longrightarrow> \<not> allowed_file name) \<and>
   (CHR ''.'' \<notin> set suf \<longrightarrow>
      allowed_file (pre @ CHR ''.'' # suf) = (lower suf \<in> ALLOWED_EXTENSIONS)) \<and>
   \<not> allowed_file ''png'' \<and> allowed_file ''a.exe.png'' \<and> \<not> allowed_file ''a.png.exe''"
proof (intro conjI impI)
  assume "CHR ''.'' \<notin> set name"
  then show "\<not> allowed_file name"
    by (simp add: allowed_file_def)
next
  assume "CHR ''.'' \<notin> set suf"
  then show "allowed_file (pre @ CHR ''.'' # suf) = (lower suf \<in> ALLOWED_EXTENSIONS)"
    by (simp add: allowed_file_def rsplit_dot_last)
next
  show "\<not> allowed_file ''png''"
    by (simp add: allowed_file_def)
next
  show "allowed_file ''a.exe.png''"
    by (simp add: allowed_file_def rsplit_dot_def lower_examples ALLOWED_EXTENSIONS_def)
next
  show "\<not> allowed_file ''a.png.exe''"
    by (simp add: allowed_file_def rsplit_dot_def lower_examples ALLOWED_EXTENSIONS_def)
qed

theorem allowed_file_last_suffix_witness:
  "CHR ''.'' \<notin> set ''README'' \<and> \<not> allowed_file ''README'' \<and>
   CHR ''.'' \<notin> set ''JPEG'' \<and> allowed_file (''photo.tar'' @ CHR ''.'' # ''JPEG'')"
  using allowed_file_last_suffix [of "''README''" "''JPEG''" "''photo.tar''"]
  by (simp add: lower_examples ALLOWED_EXTENSIONS_def)

subsection \<open>What the handlers leave alone\<close>

lemma process_image_frame:
  "client (fst (process_image P A st f)) = client st \<and>
   reference_images (fst (process_image P A st f)) = reference_images st \<and>
   environ (fst (process_image P A st f)) = environ st"
  by (simp add: process_image_def Let_def split: sum.split prod.split option.split)

lemma convert_image_frame:
  "client (fst (convert_image P A st req)) = client st \<and>
   reference_images (fst (convert_image P A st req)) = reference_images st \<and>
   environ (fst (convert_image P A st req)) = environ st"
  by (simp add: convert_image_def process_image_frame split: sum.split option.split)

lemma handle_frame:
  "client (fst (handle P A st r)) = client st \<and>
   reference_images (fst (handle P A st r)) = reference_images st \<and>
   environ (fst (handle P A st r)) = environ st"
  by (cases r) (simp_all add: handle_def convert_image_frame)

lemma serve_frame:
  "client (serve P history st) = client st \<and>
   reference_images (serve P history st) = reference_images st \<and>
   environ (serve P history st) = environ st"
  by (induction history arbitrary: st) (simp_all add: handle_frame)

lemma main_Serving:
  assumes "main P env disk = Serving st port"
  shows "client st \<noteq> None \<and> reference_images st = load_loop P disk ref_paths [] \<and>
         environ st = env"
  using assms
  by (auto simp: main_def init_genai_def load_reference_images_def Let_def
           split: option.splits if_splits sum.splits)

lemma serving_client:
  assumes "main P env disk = Serving st port"
  shows "client (serve P history st) \<noteq> None"
  using main_Serving [OF assms] by (simp add: serve_frame)

lemma allowed_file_nonempty: "allowed_file name \<Longrightarrow> name \<noteq> []"
  by (auto simp: allowed_file_def)

lemma process_image_status:
  "status (fst (snd (process_image P A st f))) = 200 \<or>
   status (fst (snd (process_image P A st f))) = 500"
  by (simp add: process_image_def jsonify_error_def Let_def
           split: sum.split prod.split option.split)

subsection \<open>Validation in \<^verbatim>\<open>/convert\<close>\<close>

text \<open>
  C10. The handler checks, in this order, the client, the presence of the file field,
  the file name, the extension and the size, and answers at the first check that fails.
  Without a client every request gets the 500 of the first check, whatever it carries.
  With a client, a named upload with a disallowed extension gets the invalid-file-type
  400 also when it is over the size limit, and that response is not the file-too-large
  one.
\<close>

theorem convert_image_check_order:
  "(client st = None \<longrightarrow>
      convert_image P A st req = (st, jsonify_error ''GenAI client not initialized'' 500, [])) \<and>
   (client st \<noteq> None \<and> files req = Inr up \<and> up ''image'' = None \<longrightarrow>
      convert_image P A st req = (st, jsonify_error ''No image file uploaded'' 400, [])) \<and>
   (client st \<noteq> None \<and> files req = Inr up \<and> up ''image'' = Some f \<and> filename f = [] \<longrightarrow>
      convert_image P A st req = (st, jsonify_error ''No file selected'' 400, [])) \<and>
   (client st \<noteq> None \<and> files req = Inr up \<and> up ''image'' = Some f \<and> filename f \<noteq> [] \<and>
    \<not> allowed_file (filename f) \<longrightarrow>
      convert_image P A st req =
        (st, jsonify_error
               ''Invalid file type. Please upload PNG, JPG, JPEG, GIF, BMP, or WebP'' 400, []) \<and>
      convert_image P A st req \<noteq>
        (st, jsonify_error ''File too large. Maximum size is 10MB'' 400, [])) \<and>
   (client st \<noteq> None \<and> files req = Inr up \<and> up ''image'' = Some f \<and>
    allowed_file (filename f) \<and> length (stream f) > MAX_FILE_SIZE \<longrightarrow>
      convert_image P A st req =
        (st, jsonify_error ''File too large. Maximum size is 10MB'' 400, []))"
  by (auto simp: convert_image_def jsonify_error_def dest: allowed_file_nonempty)

lemma allowed_me_JPG: "allowed_file ''me.JPG''"
  by (simp add: allowed_file_def rsplit_dot_def lower_examples ALLOWED_EXTENSIONS_def)

lemma not_allowed_big_exe: "\<not> allowed_file ''big.exe''"
  by (simp add: allowed_file_def rsplit_dot_def lower_examples ALLOWED_EXTENSIONS_def)

theorem convert_image_check_order_witness:
  "convert_image toy (replying (Inl (Exception ''unreachable'')))
       ((ready [])\<lparr>client := None\<rparr>) (posting ''big.exe'' (replicate (MAX_FILE_SIZE + 1) 0)) =
     ((ready [])\<lparr>client := None\<rparr>, jsonify_error ''GenAI client not initialized'' 500, []) \<and>
   convert_image toy (replying (Inl (Exception ''unreachable''))) (ready [])
       \<lparr>files = Inr Map.empty\<rparr> =
     (ready [], jsonify_error ''No image file uploaded'' 400, []) \<and>
   convert_image toy (replying (Inl (Exception ''unreachable''))) (ready [])
       (posting '''' (replicate (MAX_FILE_SIZE + 1) 0)) =
     (ready [], jsonify_error ''No file selected'' 400, []) \<and>
   convert_image toy (replying (Inl (Exception ''unreachable''))) (ready [])
       (posting ''big.exe'' (replicate (MAX_FILE_SIZE + 1) 0)) =
     (ready [], jsonify_error
        ''Invalid file type. Please upload PNG, JPG, JPEG, GIF, BMP, or WebP'' 400, []) \<and>
   convert_image toy (replying (Inl (Exception ''unreachable''))) (ready [])
       (posting ''me.JPG'' (replicate (MAX_FILE_SIZE + 1) 0)) =
     (ready [], jsonify_error ''File too large. Maximum size is 10MB'' 400, [])"
proof -
  let ?A = "replying (Inl (Exception ''unreachable''))"
  let ?big = "replicate (MAX_FILE_SIZE + 1) (0 :: byte)"
  let ?exe = "\<lparr>filename = ''big.exe'', stream = ?big\<rparr>"
  let ?anon = "\<lparr>filename = '''', stream = ?big\<rparr>"
  let ?jpg = "\<lparr>filename = ''me.JPG'', stream = ?big\<rparr>"
  have st: "client ((ready [])\<lparr>client := None\<rparr>) = None" "client (ready []) \<noteq> None"
    by (simp_all add: ready_def)
  have req: "files (posting ''big.exe'' ?big) = Inr [''image'' \<mapsto> ?exe]"
            "files (posting '''' ?big) = Inr [''image'' \<mapsto> ?anon]"
            "files (posting ''me.JPG'' ?big) = Inr [''image'' \<mapsto> ?jpg]"
            "files \<lparr>files = Inr Map.empty\<rparr> = Inr Map.empty"
    by (simp_all add: posting_def)
  have big: "length ?big > MAX_FILE_SIZE"
    by simp
  show ?thesis
    using convert_image_check_order
            [where st = "(ready [])\<lparr>client := None\<rparr>" and P = toy and A = ?A
               and req = "posting ''big.exe'' ?big"]
          convert_image_check_order
            [where st = "ready []" and P = toy and A = ?A
               and req = "\<lparr>files = Inr Map.empty\<rparr>" and up = Map.empty]
          convert_image_check_order
            [where st = "ready []" and P = toy and A = ?A
               and req = "posting '''' ?big" and up = "[''image'' \<mapsto> ?anon]" and f = ?anon]
          convert_image_check_order
            [where st = "ready []" and P = toy and A = ?A
               and req = "posting ''big.exe'' ?big" and up = "[''image'' \<mapsto> ?exe]" and f = ?exe]
          convert_image_check_order
            [where st = "ready []" and P = toy and A = ?A
               and req = "posting ''me.JPG'' ?big" and up = "[''image'' \<mapsto> ?jpg]" and f = ?jpg]
          st req big
    by (simp add: not_allowed_big_exe allowed_me_JPG del: length_replicate)
qed

text \<open>
  C3. In a server started by the entry point, after any sequence of requests, an upload
  whose name fails the extension check is answered with a 400, no call to the remote
  model is made, and the state is left as it was.
\<close>

theorem convert_rejects_disallowed_extension:
  assumes "main P env disk = Serving st0 port"
    and "st = serve P history st0"
    and "files req = Inr up"
    and "up ''image'' = Some f"
    and "\<not> allowed_file (filename f)"
  shows "status (fst (snd (convert_image P A st req))) = 400 \<and>
         snd (snd (convert_image P A st req)) = [] \<and>
         fst (convert_image P A st req) = st"
proof -
  have "client st \<noteq> None"
    using assms(1,2) by (simp add: serving_client)
  then show ?thesis
    using assms(3-5) by (simp add: convert_image_def jsonify_error_def)
qed

lemma main_toy_key:
  "main toy [''GEMINI_API_KEY'' \<mapsto> ''key''] Map.empty = Serving (ready []) 5000"
  by (simp add: main_def init_genai_def toy_def load_reference_images_def ref_paths_def
        load_one_def ready_def)

lemma not_allowed_evil: "\<not> allowed_file ''notes.png.exe''"
  by (simp add: allowed_file_def rsplit_dot_def lower_examples ALLOWED_EXTENSIONS_def)

theorem convert_rejects_disallowed_extension_witness:
  "main toy [''GEMINI_API_KEY'' \<mapsto> ''key''] Map.empty = Serving (ready []) 5000 \<and>
   \<not> allowed_file ''notes.png.exe'' \<and>
   status (fst (snd (convert_image toy (replying (Inl (Exception ''unreachable'')))
      (serve toy [(replying (Inl (Exception ''unreachable'')), GET_health)] (ready []))
      (posting ''notes.png.exe'' [0x89, 1])))) = 400 \<and>
   snd (snd (convert_image toy (replying (Inl (Exception ''unreachable'')))
      (serve toy [(replying (Inl (Exception ''unreachable'')), GET_health)] (ready []))
      (posting ''notes.png.exe'' [0x89, 1]))) = []"
proof -
  let ?A = "replying (Inl (Exception ''unreachable''))"
  let ?f = "\<lparr>filename = ''notes.png.exe'', stream = [0x89, 1]\<rparr>"
  let ?st = "serve toy [(?A, GET_health)] (ready [])"
  let ?req = "posting ''notes.png.exe'' [0x89, 1]"
  have st: "?st = serve toy [(?A, GET_health)] (ready [])"
    by (rule refl)
  have up: "files ?req = Inr [''image'' \<mapsto> ?f]" "[''image'' \<mapsto> ?f] ''image'' = Some ?f"
    by (simp_all add: posting_def)
  have bad: "\<not> allowed_file (filename ?f)"
    by (simp add: not_allowed_evil)
  show ?thesis
    using convert_rejects_disallowed_extension [OF main_toy_key st up bad, of ?A]
    by (simp add: main_toy_key not_allowed_evil)
qed

text \<open>
  C4. In a server started by the entry point, after any sequence of requests, an upload
  with an allowed extension and at most \<open>10 * 1024 * 1024\<close> bytes passes validation:
  the handler does what its processing block does, which never answers 400. With an
  allowed extension and more bytes than that, the answer is the file-too-large 400.
  Whatever its name, an upload over the limit is answered with a 400, and without a call
  to the remote model.
\<close>

theorem convert_size_limit:
  assumes "main P env disk = Serving st0 port"
    and "st = serve P history st0"
    and "files req = Inr up"
    and "up ''image'' = Some f"
  shows "(allowed_file (filename f) \<and> length (stream f) \<le> 10 * 1024 * 1024 \<longrightarrow>
            convert_image P A st req = process_image P A st f \<and>
            status (fst (snd (convert_image P A st req))) \<noteq> 400) \<and>
         (allowed_file (filename f) \<and> length (stream f) > 10 * 1024 * 1024 \<longrightarrow>
            convert_image P A st req =
              (st, jsonify_error ''File too large. Maximum size is 10MB'' 400, [])) \<and>
         (length (stream f) > 10 * 1024 * 1024 \<longrightarrow>
            status (fst (snd (convert_image P A st req))) = 400 \<and>
            snd (snd (convert_image P A st req)) = [])"
proof -
  have c: "client st \<noteq> None"
    using assms(1,2) by (simp add: serving_client)
  have ok: "status (fst (snd (process_image P A st f))) \<noteq> 400"
    using process_image_status [of P A st f] by auto
  show ?thesis
    using c ok assms(3,4)
    by (auto simp: convert_image_def jsonify_error_def MAX_FILE_SIZE_def
             dest: allowed_file_nonempty)
qed

theorem convert_size_limit_witness:
  "main toy [''GEMINI_API_KEY'' \<mapsto> ''key''] Map.empty = Serving (ready []) 5000 \<and>
   allowed_file ''me.JPG'' \<and>
   length [0xFF, 5 :: byte] \<le> 10 * 1024 * 1024 \<and>
   convert_image toy (replying (Inl (Exception ''timed out''))) (ready [])
       (posting ''me.JPG'' [0xFF, 5]) =
     process_image toy (replying (Inl (Exception ''timed out''))) (ready [])
       \<lparr>filename = ''me.JPG'', stream = [0xFF, 5]\<rparr> \<and>
   length (replicate (10 * 1024 * 1024 + 1) (0 :: byte)) > 10 * 1024 * 1024 \<and>
   convert_image toy (replying (Inl (Exception ''timed out''))) (ready [])
       (posting ''me.JPG'' (replicate (10 * 1024 * 1024 + 1) 0)) =
     (ready [], jsonify_error ''File too large. Maximum size is 10MB'' 400, [])"
proof -
  let ?A = "replying (Inl (Exception ''timed out''))"
  let ?env = "[''GEMINI_API_KEY'' \<mapsto> ''key'']"
  let ?small = "\<lparr>filename = ''me.JPG'', stream = [0xFF, 5]\<rparr>"
  let ?big = "\<lparr>filename = ''me.JPG'', stream = replicate (10 * 1024 * 1024 + 1) 0\<rparr>"
  have small: "serve toy [] (ready []) = ready []"
              "files (posting ''me.JPG'' [0xFF, 5]) = Inr [''image'' \<mapsto> ?small]"
              "[''image'' \<mapsto> ?small] ''image'' = Some ?small"
    by (simp_all add: posting_def)
  have big: "files (posting ''me.JPG'' (replicate (10 * 1024 * 1024 + 1) 0)) = Inr [''image'' \<mapsto> ?big]"
            "[''image'' \<mapsto> ?big] ''image'' = Some ?big"
    by (simp_all add: posting_def)
  show ?thesis
    using convert_size_limit [OF main_toy_key small(1) [symmetric] small(2,3), of ?A]
          convert_size_limit [OF main_toy_key small(1) [symmetric] big, of ?A]
    by (simp add: allowed_me_JPG main_toy_key)
qed

subsection \<open>The request to the model and the extraction of its answer\<close>

lemma map_filter_skip_prefix:
  assumes "\<forall>q\<in>set pre. g q = None" and "g p = Some d"
  shows "List.map_filter g (pre @ p # post) = d # List.map_filter g post"
proof -
  have "filter (\<lambda>x. g x \<noteq> None) pre = []"
    using assms(1) by (simp add: filter_empty_conv)
  then show ?thesis
    using assms(2) by (simp add: List.map_filter_def)
qed

lemma map_filter_none:
  assumes "\<forall>q\<in>set ps. g q = None"
  shows "List.map_filter g ps = []"
  using assms by (simp add: List.map_filter_def filter_empty_conv)

lemma toy_decodes:
  "b64decode toy ''iQECAw=='' = Inr [0x89, 1, 2, 3]"
  "b64decode toy ''/wECAw=='' = Inr [0xFF, 1, 2, 3]"
  by code_simp+

lemma toy_opens:
  "Image_open toy [0x89, 1, 2, 3] = Inr (Toy ''RGB'' [1, 2, 3])"
  "Image_open toy [0xFF, 1, 2, 3] = Inr (Toy ''RGB'' [1, 2, 3])"
  "Image_open toy [] = Inl (Exception ''cannot identify image file'')"
  by (simp_all add: toy_def toy_open_def)

text \<open>
  C7. With a client, the converter makes exactly one call to the remote model. Its
  contents are the reference images in the order of the list, then the user image, then
  the prompt, and nothing else. The converter's result is decided by the outcome of that
  call: an exception raised by the call leaves the converter as it is, a response is
  handed to the extraction. A conversion started by the handler makes that one call with
  the opened upload as the user image.
\<close>

theorem converter_sends_one_request:
  assumes "client st = Some c"
    and "contents = map Img (reference_images st) @ [Img user_image, Txt prompt]"
  shows "snd (convert_to_notion_style P A st user_image) = [(model_name, contents)] \<and>
         fst (convert_to_notion_style P A st user_image) =
           (case generate_content A c model_name contents of
              Inl e \<Rightarrow> Inl e
            | Inr resp \<Rightarrow> extract_image P resp) \<and>
         (load_user_image P (stream f) = Inr user_image \<longrightarrow>
            snd (snd (process_image P A st f)) = [(model_name, contents)])"
  using assms
  by (simp add: convert_to_notion_style_def process_image_def Let_def
           split: sum.split prod.split option.split)

theorem converter_sends_one_request_witness:
  "client (ready [Toy ''RGB'' [9], Toy ''RGB'' [8]]) = Some (Client ''key'') \<and>
   load_user_image toy [0x47, 7] = Inr (Toy ''RGB'' [7]) \<and>
   snd (snd (process_image toy (replying (Inl (Exception ''timed out'')))
               (ready [Toy ''RGB'' [9], Toy ''RGB'' [8]])
               \<lparr>filename = ''me.gif'', stream = [0x47, 7]\<rparr>)) =
     [(model_name, [Img (Toy ''RGB'' [9]), Img (Toy ''RGB'' [8]), Img (Toy ''RGB'' [7]), Txt prompt])] \<and>
   fst (convert_to_notion_style toy (replying (Inl (Exception ''timed out'')))
          (ready [Toy ''RGB'' [9], Toy ''RGB'' [8]]) (Toy ''RGB'' [7])) =
     Inl (Exception ''timed out'')"
proof -
  let ?st = "ready [Toy ''RGB'' [9], Toy ''RGB'' [8]]"
  let ?contents = "[Img (Toy ''RGB'' [9]), Img (Toy ''RGB'' [8]), Img (Toy ''RGB'' [7]), Txt prompt]"
  have c: "client ?st = Some (Client ''key'')"
    by (simp add: ready_def)
  have cs: "?contents = map Img (reference_images ?st) @ [Img (Toy ''RGB'' [7]), Txt prompt]"
    by (simp add: ready_def)
  have l: "load_user_image toy [0x47, 7] = Inr (Toy ''RGB'' [7])"
    by (simp add: load_user_image_def toy_def toy_open_def)
  show ?thesis
    using converter_sends_one_request
            [OF c cs, of toy "replying (Inl (Exception ''timed out''))"
               "\<lparr>filename = ''me.gif'', stream = [0x47, 7]\<rparr>"]
    by (simp add: c l replying_def)
qed

text \<open>
  C1. The payloads are taken from the parts of the first candidate in their order, and
  the first one alone decides the result: whatever parts without inline data precede it
  and whatever parts follow it, bytes are opened as they are, a string is
  base64-decoded and the decoded bytes opened, and any other payload gives no image. A
  failure to decode or to open gives no image either.
\<close>

theorem first_inline_payload_only:
  assumes "candidates resp = Some (cand # others)"
    and "content cand = Some ct"
    and "parts ct = Some (pre @ p # post)"
    and "\<forall>q\<in>set pre. inline_data q = None"
    and "inline_data p = Some d"
  shows "List.map_filter inline_data (pre @ p # post) = d # List.map_filter inline_data post \<and>
         extract_image P resp =
           (case d of
              Bytes raw \<Rightarrow>
                (case Image_open P raw of Inl e \<Rightarrow> Inr None | Inr g \<Rightarrow> Inr (Some g))
            | Str s \<Rightarrow>
                (case b64decode P s of
                   Inl e \<Rightarrow> Inr None
                 | Inr decoded \<Rightarrow>
                     (case Image_open P decoded of Inl e \<Rightarrow> Inr None | Inr g \<Rightarrow> Inr (Some g)))
            | Other \<Rightarrow> Inr None) \<and>
         (client st = Some c \<and>
          generate_content A c model_name
            (map Img (reference_images st) @ [Img user_image, Txt prompt]) = Inr resp \<longrightarrow>
            fst (convert_to_notion_style P A st user_image) = extract_image P resp)"
proof -
  have first: "List.map_filter inline_data (pre @ p # post) = d # List.map_filter inline_data post"
    using assms(4,5) by (simp add: map_filter_skip_prefix)
  then show ?thesis
    using assms(1-3)
    by (auto simp: extract_image_def convert_to_notion_style_def Let_def
             split: inline_payload.split sum.split)
qed

theorem first_inline_payload_only_witness:
  "extract_image toy
     (one_candidate [text_part ''Here is your avatar'', inline_part (Str ''/wECAw==''),
                     inline_part (Bytes [0x89, 9])]) = Inr (Some (Toy ''RGB'' [1, 2, 3])) \<and>
   extract_image toy
     (one_candidate [text_part ''Here is your avatar'', inline_part (Str ''/wECAw=='')]) =
     Inr (Some (Toy ''RGB'' [1, 2, 3]))"
proof -
  let ?pre = "[text_part ''Here is your avatar'']"
  let ?p = "inline_part (Str ''/wECAw=='')"
  let ?post = "[inline_part (Bytes [0x89, 9])]"
  have a: "candidates (one_candidate (?pre @ ?p # ?post)) =
             Some (\<lparr>content = Some \<lparr>parts = Some (?pre @ ?p # ?post)\<rparr>\<rparr> # [])"
          "candidates (one_candidate (?pre @ ?p # [])) =
             Some (\<lparr>content = Some \<lparr>parts = Some (?pre @ ?p # [])\<rparr>\<rparr> # [])"
    by (simp_all add: one_candidate_def)
  have b: "content \<lparr>content = Some \<lparr>parts = Some (?pre @ ?p # ?post)\<rparr>\<rparr> =
             Some \<lparr>parts = Some (?pre @ ?p # ?post)\<rparr>"
          "content \<lparr>content = Some \<lparr>parts = Some (?pre @ ?p # [])\<rparr>\<rparr> =
             Some \<lparr>parts = Some (?pre @ ?p # [])\<rparr>"
    by simp_all
  have b': "parts \<lparr>parts = Some (?pre @ ?p # ?post)\<rparr> = Some (?pre @ ?p # ?post)"
           "parts \<lparr>parts = Some (?pre @ ?p # [])\<rparr> = Some (?pre @ ?p # [])"
    by simp_all
  have c: "\<forall>q\<in>set ?pre. inline_data q = None"
    by (simp add: text_part_def)
  have d: "inline_data ?p = Some (Str ''/wECAw=='')"
    by (simp add: inline_part_def)
  show ?thesis
    using first_inline_payload_only [OF a(1) b(1) b'(1) c d, of toy]
          first_inline_payload_only [OF a(2) b(2) b'(2) c d, of toy]
    by (simp add: toy_decodes toy_opens)
qed

text \<open>
  C5. When the call succeeds and no part of the first candidate of the response has
  inline data, the converter returns \<^verbatim>\<open>None\<close> and raises nothing, and the handler
  answers 500 with the message \<open>Failed to generate avatar\<close>. When the call raises, the
  converter raises the same exception and the handler answers 500 with a message that
  quotes it, which is never the former message.
\<close>

theorem text_only_response_is_no_result:
  assumes "client st = Some c"
    and "files req = Inr up"
    and "up ''image'' = Some f"
    and "allowed_file (filename f)"
    and "length (stream f) \<le> MAX_FILE_SIZE"
    and "load_user_image P (stream f) = Inr user_image"
    and "contents = map Img (reference_images st) @ [Img user_image, Txt prompt]"
  shows "(generate_content A c model_name contents = Inr resp \<and>
          candidates resp = Some (cand # others) \<and> content cand = Some ct \<and>
          parts ct = Some ps \<and> (\<forall>p\<in>set ps. inline_data p = None) \<longrightarrow>
            fst (convert_to_notion_style P A st user_image) = Inr None \<and>
            fst (snd (convert_image P A st req)) = jsonify_error ''Failed to generate avatar'' 500) \<and>
         (generate_content A c model_name contents = Inl e \<longrightarrow>
            fst (convert_to_notion_style P A st user_image) = Inl e \<and>
            fst (snd (convert_image P A st req)) =
              jsonify_error (''Error processing image: '' @ str e) 500 \<and>
            jsonify_error (''Error processing image: '' @ str e) 500 \<noteq>
              jsonify_error ''Failed to generate avatar'' 500)"
proof -
  have valid: "convert_image P A st req = process_image P A st f"
    using assms(1-5) by (auto simp: convert_image_def dest: allowed_file_nonempty)
  show ?thesis
    using assms(1,6,7)
    by (auto simp: valid process_image_def convert_to_notion_style_def extract_image_def
                   map_filter_none jsonify_error_def Let_def)
qed

theorem text_only_response_is_no_result_witness:
  "fst (snd (convert_image toy
       (replying (Inr (one_candidate [text_part ''I cannot draw this person.''])))
       (ready [Toy ''RGB'' [9]]) (posting ''me.JPG'' [0xFF, 5]))) =
     jsonify_error ''Failed to generate avatar'' 500 \<and>
   fst (snd (convert_image toy (replying (Inl (Exception ''503 UNAVAILABLE'')))
       (ready [Toy ''RGB'' [9]]) (posting ''me.JPG'' [0xFF, 5]))) =
     jsonify_error ''Error processing image: 503 UNAVAILABLE'' 500"
proof -
  let ?st = "ready [Toy ''RGB'' [9]]"
  let ?f = "\<lparr>filename = ''me.JPG'', stream = [0xFF, 5]\<rparr>"
  let ?resp = "one_candidate [text_part ''I cannot draw this person.'']"
  let ?ps = "[text_part ''I cannot draw this person.'']"
  let ?ct = "\<lparr>parts = Some ?ps\<rparr>"
  let ?cand = "\<lparr>content = Some ?ct\<rparr>"
  have c: "client ?st = Some (Client ''key'')"
    by (simp add: ready_def)
  have up: "files (posting ''me.JPG'' [0xFF, 5]) = Inr [''image'' \<mapsto> ?f]"
           "[''image'' \<mapsto> ?f] ''image'' = Some ?f"
    by (simp_all add: posting_def)
  have ok: "allowed_file (filename ?f)" "length (stream ?f) \<le> MAX_FILE_SIZE"
    by (simp_all add: allowed_me_JPG MAX_FILE_SIZE_def)
  have l: "load_user_image toy (stream ?f) = Inr (Toy ''RGB'' [5])"
    by (simp add: load_user_image_def toy_def toy_open_def)
  have r: "candidates ?resp = Some (?cand # [])" "content ?cand = Some ?ct"
          "parts ?ct = Some ?ps" "\<forall>p\<in>set ?ps. inline_data p = None"
    by (simp_all add: one_candidate_def text_part_def)
  show ?thesis
    using text_only_response_is_no_result
            [OF c up ok l refl, of "replying (Inr ?resp)" ?resp ?cand "[]" ?ct ?ps
               "Exception ''503 UNAVAILABLE''"]
          text_only_response_is_no_result
            [OF c up ok l refl, of "replying (Inl (Exception ''503 UNAVAILABLE''))" ?resp ?cand "[]"
               ?ct ?ps "Exception ''503 UNAVAILABLE''"]
          r
    by (simp add: replying_def)
qed

subsection \<open>The file written by \<^verbatim>\<open>/convert\<close>\<close>

text \<open>
  C2, as stated, fails. The handler does not write the payload: it writes what the
  imaging library encodes, as PNG, from the image it opened from the payload. On the
  small library a response with the single payload \<open>FF 01 02 03\<close> is answered with
  200 and the file holds \<open>89 01 02 03\<close>; and a single payload that cannot be opened
  (the empty one) gives no image at all.
\<close>

theorem payload_not_written_verbatim_counterexample:
  "List.map_filter inline_data [inline_part (Bytes [0xFF, 1, 2, 3])] = [Bytes [0xFF, 1, 2, 3]] \<and>
   status (fst (snd (convert_image toy
       (replying (Inr (one_candidate [inline_part (Bytes [0xFF, 1, 2, 3])])))
       (ready []) (posting ''me.JPG'' [0xFF, 5])))) = 200 \<and>
   fs (fst (convert_image toy
       (replying (Inr (one_candidate [inline_part (Bytes [0xFF, 1, 2, 3])])))
       (ready []) (posting ''me.JPG'' [0xFF, 5])))
     ''public/outputs/notion_avatar_20250101_120000.png'' = Some [0x89, 1, 2, 3] \<and>
   [0x89, 1, 2, 3] \<noteq> [0xFF, 1, 2, 3 :: byte] \<and>
   fst (convert_to_notion_style toy (replying (Inr (one_candidate [inline_part (Bytes [])])))
       (ready []) (Toy ''RGB'' [5])) = Inr None"
  by (simp add: convert_image_def process_image_def convert_to_notion_style_def
        extract_image_def load_user_image_def allowed_me_JPG MAX_FILE_SIZE_def
        List.map_filter_def inline_part_def one_candidate_def replying_def ready_def
        posting_def toy_def toy_open_def UPLOAD_FOLDER_def Let_def)

text \<open>
  C2, amended. Take a validated upload that opens, and a response whose first candidate
  carries exactly one inline payload: bytes, or a string that base64-decodes to bytes.
  If the library opens those bytes as an image, the converter returns that image; if the
  library then encodes the image as PNG, the handler answers 200 with the path
  \<open>/outputs/notion_avatar_<timestamp>.png\<close> and the type \<open>image/png\<close>, and the file
  of that name in the upload folder holds the encoder's output (equal to the payload
  bytes only when the encoder reproduces them). If the library cannot open the bytes,
  the converter returns \<^verbatim>\<open>None\<close>.
\<close>

theorem single_payload_is_reencoded:
  assumes "client st = Some c"
    and "files req = Inr up"
    and "up ''image'' = Some f"
    and "allowed_file (filename f)"
    and "length (stream f) \<le> MAX_FILE_SIZE"
    and "load_user_image P (stream f) = Inr user_image"
    and "generate_content A c model_name
           (map Img (reference_images st) @ [Img user_image, Txt prompt]) = Inr resp"
    and "candidates resp = Some (cand # others)"
    and "content cand = Some ct"
    and "parts ct = Some ps"
    and "List.map_filter inline_data ps = [d]"
    and "d = Bytes raw \<or> d = Str s \<and> b64decode P s = Inr raw"
    and "name = ''notion_avatar_'' @ now_strftime A @ ''.png''"
  shows "(Image_open P raw = Inr g \<longrightarrow>
            fst (convert_to_notion_style P A st user_image) = Inr (Some g) \<and>
            (Image_save_PNG P g = Inr png \<longrightarrow>
               fst (snd (convert_image P A st req)) =
                 \<lparr>status = 200,
                  payload = SuccessJson True ''Image converted successfully''
                    [\<lparr>fileName = name, filePath = ''/outputs/'' @ name,
                      mimeType = ''image/png''\<rparr>]\<rparr> \<and>
               fs (fst (convert_image P A st req)) (UPLOAD_FOLDER @ ''/'' @ name) = Some png)) \<and>
         (Image_open P raw = Inl e \<longrightarrow>
            fst (convert_to_notion_style P A st user_image) = Inr None)"
proof -
  have valid: "convert_image P A st req = process_image P A st f"
    using assms(1-5) by (auto simp: convert_image_def dest: allowed_file_nonempty)
  have conv: "convert_to_notion_style P A st user_image =
                (extract_image P resp,
                 [(model_name, map Img (reference_images st) @ [Img user_image, Txt prompt])])"
    using assms(1,7) by (simp add: convert_to_notion_style_def)
  have ex: "extract_image P resp =
              (case Image_open P raw of Inl e \<Rightarrow> Inr None | Inr g \<Rightarrow> Inr (Some g))"
    using assms(8-12) by (auto simp: extract_image_def)
  show ?thesis
    using assms(6,13) by (auto simp: valid conv ex process_image_def Let_def)
qed

theorem single_payload_is_reencoded_witness:
  "fst (convert_to_notion_style toy
         (replying (Inr (one_candidate [text_part ''Done.'', inline_part (Str ''iQECAw=='')])))
         (ready [Toy ''RGB'' [9]]) (Toy ''RGB'' [5])) = Inr (Some (Toy ''RGB'' [1, 2, 3])) \<and>
   fs (fst (convert_image toy
         (replying (Inr (one_candidate [text_part ''Done.'', inline_part (Str ''iQECAw=='')])))
         (ready [Toy ''RGB'' [9]]) (posting ''me.JPG'' [0xFF, 5])))
     (UPLOAD_FOLDER @ ''/'' @ ''notion_avatar_20250101_120000.png'') = Some [0x89, 1, 2, 3] \<and>
   fst (convert_to_notion_style toy
         (replying (Inr (one_candidate [inline_part (Bytes [])])))
         (ready [Toy ''RGB'' [9]]) (Toy ''RGB'' [5])) = Inr None"
proof -
  let ?st = "ready [Toy ''RGB'' [9]]"
  let ?f = "\<lparr>filename = ''me.JPG'', stream = [0xFF, 5]\<rparr>"
  let ?ps = "[text_part ''Done.'', inline_part (Str ''iQECAw=='')]"
  let ?ct = "\<lparr>parts = Some ?ps\<rparr>"
  let ?cand = "\<lparr>content = Some ?ct\<rparr>"
  let ?resp = "one_candidate ?ps"
  let ?A = "replying (Inr ?resp)"
  let ?ps' = "[inline_part (Bytes [])]"
  let ?ct' = "\<lparr>parts = Some ?ps'\<rparr>"
  let ?cand' = "\<lparr>content = Some ?ct'\<rparr>"
  let ?resp' = "one_candidate ?ps'"
  let ?A' = "replying (Inr ?resp')"
  let ?contents = "map Img (reference_images ?st) @ [Img (Toy ''RGB'' [5]), Txt prompt]"
  have c: "client ?st = Some (Client ''key'')"
    by (simp add: ready_def)
  have up: "files (posting ''me.JPG'' [0xFF, 5]) = Inr [''image'' \<mapsto> ?f]"
           "[''image'' \<mapsto> ?f] ''image'' = Some ?f"
    by (simp_all add: posting_def)
  have ok: "allowed_file (filename ?f)" "length (stream ?f) \<le> MAX_FILE_SIZE"
    by (simp_all add: allowed_me_JPG MAX_FILE_SIZE_def)
  have l: "load_user_image toy (stream ?f) = Inr (Toy ''RGB'' [5])"
    by (simp add: load_user_image_def toy_def toy_open_def)
  have g: "generate_content ?A (Client ''key'') model_name ?contents = Inr ?resp"
    by (simp add: replying_def)
  have g': "generate_content ?A' (Client ''key'') model_name ?contents = Inr ?resp'"
    by (simp add: replying_def)
  have r: "candidates ?resp = Some (?cand # [])" "content ?cand = Some ?ct"
          "parts ?ct = Some ?ps" "List.map_filter inline_data ?ps = [Str ''iQECAw=='']"
    by (simp_all add: one_candidate_def text_part_def inline_part_def List.map_filter_def)
  have r': "candidates ?resp' = Some (?cand' # [])" "content ?cand' = Some ?ct'"
           "parts ?ct' = Some ?ps'" "List.map_filter inline_data ?ps' = [Bytes []]"
    by (simp_all add: one_candidate_def inline_part_def List.map_filter_def)
  have d: "Str ''iQECAw=='' = Bytes [0x89, 1, 2, 3] \<or>
           Str ''iQECAw=='' = Str ''iQECAw=='' \<and> b64decode toy ''iQECAw=='' = Inr [0x89, 1, 2, 3]"
    by (simp add: toy_decodes)
  have d': "Bytes [] = Bytes [] \<or> Bytes [] = Str [] \<and> b64decode toy [] = Inr []"
    by simp
  have n: "''notion_avatar_20250101_120000.png'' = ''notion_avatar_'' @ now_strftime ?A @ ''.png''"
          "''notion_avatar_20250101_120000.png'' = ''notion_avatar_'' @ now_strftime ?A' @ ''.png''"
    by (simp_all add: replying_def)
  have s: "Image_save_PNG toy (Toy ''RGB'' [1, 2, 3]) = Inr [0x89, 1, 2, 3]"
    by (simp add: toy_def)
  show ?thesis
    using single_payload_is_reencoded
            [OF c up ok l g r d n(1), of "Toy ''RGB'' [1, 2, 3]" "[0x89, 1, 2, 3]"]
          single_payload_is_reencoded
            [OF c up ok l g' r' d' n(2), where e = "Exception ''cannot identify image file''"]
          s
    by (simp add: toy_opens)
qed

subsection \<open>Startup\<close>

text \<open>
  C6, as stated, fails in its second half: a credential variable that is set does not
  mean that the port is read. Set to the empty string it counts as missing, and with a
  key that the client constructor refuses the initialisation fails as well; both times
  the process exits with status 1 and never reads the port.
\<close>

theorem key_set_but_exit_counterexample:
  "[''GEMINI_API_KEY'' \<mapsto> '''', ''FLASK_PORT'' \<mapsto> ''8080''] ''GEMINI_API_KEY'' \<noteq> None \<and>
   main toy [''GEMINI_API_KEY'' \<mapsto> '''', ''FLASK_PORT'' \<mapsto> ''8080''] Map.empty = Exit 1 \<and>
   [''GEMINI_API_KEY'' \<mapsto> ''key'', ''FLASK_PORT'' \<mapsto> ''8080''] ''GEMINI_API_KEY'' \<noteq> None \<and>
   main toy_refusing [''GEMINI_API_KEY'' \<mapsto> ''key'', ''FLASK_PORT'' \<mapsto> ''8080''] Map.empty =
     Exit 1"
  by (simp add: main_def init_genai_def toy_refusing_def toy_def)

text \<open>
  C6, amended. When the credential variable is unset or empty, or when the client
  constructor raises, the process exits with status 1 and serves nothing. When the
  variable holds a non-empty key and the client is constructed, the server starts on
  port 5000 if the port variable is unset and on the number the port variable reads as
  otherwise; a port variable that is no number ends the process with the exception of
  \<^verbatim>\<open>int\<close>.
\<close>

theorem startup_outcomes:
  "(env ''GEMINI_API_KEY'' = None \<or> env ''GEMINI_API_KEY'' = Some [] \<longrightarrow>
      main P env disk = Exit 1) \<and>
   (env ''GEMINI_API_KEY'' = Some key \<and> key \<noteq> [] \<and> genai_Client P key = Inl e \<longrightarrow>
      main P env disk = Exit 1) \<and>
   (env ''GEMINI_API_KEY'' = Some key \<and> key \<noteq> [] \<and> genai_Client P key = Inr c \<and>
    st = \<lparr>client = Some c, reference_images = load_loop P disk ref_paths [],
          environ = env, fs = disk\<rparr> \<longrightarrow>
      (env ''FLASK_PORT'' = None \<longrightarrow> main P env disk = Serving st 5000) \<and>
      (env ''FLASK_PORT'' = Some s \<and> py_int P s = Inr n \<longrightarrow> main P env disk = Serving st n) \<and>
      (env ''FLASK_PORT'' = Some s \<and> py_int P s = Inl e' \<longrightarrow> main P env disk = Uncaught e'))"
  by (auto simp: main_def init_genai_def load_reference_images_def Let_def)

lemma toy_int_examples:
  "py_int toy ''8080'' = Inr 8080"
  "py_int toy ''http'' = Inl (Exception ''invalid literal for int() with base 10: http'')"
  by code_simp+

theorem startup_outcomes_witness:
  "main toy Map.empty Map.empty = Exit 1 \<and>
   main toy_refusing [''GEMINI_API_KEY'' \<mapsto> ''key''] Map.empty = Exit 1 \<and>
   main toy [''GEMINI_API_KEY'' \<mapsto> ''key''] Map.empty = Serving (ready []) 5000 \<and>
   main toy [''GEMINI_API_KEY'' \<mapsto> ''key'', ''FLASK_PORT'' \<mapsto> ''8080''] Map.empty =
     Serving ((ready [])\<lparr>environ := [''GEMINI_API_KEY'' \<mapsto> ''key'', ''FLASK_PORT'' \<mapsto> ''8080'']\<rparr>) 8080 \<and>
   main toy [''GEMINI_API_KEY'' \<mapsto> ''key'', ''FLASK_PORT'' \<mapsto> ''http''] Map.empty =
     Uncaught (Exception ''invalid literal for int() with base 10: http'')"
proof -
  have k: "genai_Client toy ''key'' = Inr (Client ''key'')"
    by (simp add: toy_def)
  have k': "genai_Client toy_refusing ''key'' = Inl (Exception ''invalid API key'')"
    by (simp add: toy_refusing_def)
  have refs: "load_loop toy Map.empty ref_paths [] = []"
    by (simp add: ref_paths_def load_one_def)
  let ?e = "Exception ''invalid literal for int() with base 10: http''"
  show ?thesis
    using startup_outcomes [where env = Map.empty and P = toy and disk = Map.empty]
          startup_outcomes
            [where env = "[''GEMINI_API_KEY'' \<mapsto> ''key'']" and key = "''key''"
               and P = toy_refusing and e = "Exception ''invalid API key''" and disk = Map.empty]
          k'
          startup_outcomes
            [where env = "[''GEMINI_API_KEY'' \<mapsto> ''key'']" and key = "''key''" and P = toy
               and c = "Client ''key''" and disk = Map.empty and st = "ready []"]
          startup_outcomes
            [where env = "[''GEMINI_API_KEY'' \<mapsto> ''key'', ''FLASK_PORT'' \<mapsto> ''8080'']"
               and key = "''key''" and P = toy and c = "Client ''key''" and disk = Map.empty
               and st = "(ready [])\<lparr>environ := [''GEMINI_API_KEY'' \<mapsto> ''key'', ''FLASK_PORT'' \<mapsto> ''8080'']\<rparr>"
               and s = "''8080''" and n = 8080]
          startup_outcomes
            [where env = "[''GEMINI_API_KEY'' \<mapsto> ''key'', ''FLASK_PORT'' \<mapsto> ''http'']"
               and key = "''key''" and P = toy and c = "Client ''key''" and disk = Map.empty
               and st = "(ready [])\<lparr>environ := [''GEMINI_API_KEY'' \<mapsto> ''key'', ''FLASK_PORT'' \<mapsto> ''http'']\<rparr>"
               and s = "''http''" and e' = ?e]
    by (simp add: k refs ready_def toy_int_examples)
qed

subsection \<open>The reference images\<close>

lemma load_one_alt:
  "load_one P disk p acc =
     acc @ (case reference_image P disk p of None \<Rightarrow> [] | Some img \<Rightarrow> [img])"
  by (simp add: load_one_def reference_image_def load_user_image_def
           split: option.split sum.split)

lemma load_loop_map_filter:
  "load_loop P disk ps acc = acc @ List.map_filter (reference_image P disk) ps"
proof (induction ps arbitrary: acc)
  case Nil
  show ?case by (simp add: List.map_filter_simps)
next
  case (Cons p ps)
  show ?case
    by (simp add: Cons.IH load_one_alt List.map_filter_simps split: option.split)
qed

lemma length_map_filter_le: "length (List.map_filter g xs) \<le> length xs"
  by (simp add: List.map_filter_def)

lemma length_map_filter_all:
  assumes "\<forall>x\<in>set xs. g x \<noteq> None"
  shows "length (List.map_filter g xs) = length xs"
proof -
  have "filter (\<lambda>x. g x \<noteq> None) xs = xs"
    using assms by (simp add: filter_id_conv)
  then show ?thesis
    by (simp add: List.map_filter_def)
qed

lemma reference_image_Some:
  "reference_image P disk p = Some img \<longleftrightarrow>
     (\<exists>raw rgb. disk p = Some raw \<and> load_user_image P raw = Inr rgb \<and>
                Image_copy P rgb = Inr img)"
  by (auto simp: reference_image_def split: option.splits sum.splits)

lemma convert_to_notion_style_calls:
  assumes "call \<in> set (snd (convert_to_notion_style P A st u))"
  shows "snd call = map Img (reference_images st) @ [Img u, Txt prompt]"
  using assms
  by (auto simp: convert_to_notion_style_def Let_def split: option.splits sum.splits)

lemma process_image_calls:
  assumes "call \<in> set (snd (snd (process_image P A st f)))"
  shows "\<exists>u. snd call = map Img (reference_images st) @ [Img u, Txt prompt]"
proof (cases "load_user_image P (stream f)")
  case (Inl e)
  then show ?thesis
    using assms by (simp add: process_image_def)
next
  case (Inr u)
  then have "call \<in> set (snd (convert_to_notion_style P A st u))"
    using assms
    by (auto simp: process_image_def Let_def split: prod.splits sum.splits option.splits)
  then show ?thesis
    by (auto dest: convert_to_notion_style_calls)
qed

lemma handle_calls:
  assumes "call \<in> set (snd (snd (handle P A st r)))"
  shows "\<exists>u. snd call = map Img (reference_images st) @ [Img u, Txt prompt]"
proof (cases r)
  case (POST_convert req)
  then have "call \<in> set (snd (snd (convert_image P A st req)))"
    using assms by (simp add: handle_def)
  then have "call \<in> set (snd (snd (process_image P A st (the (projr (files req) ''image'')))))"
    by (auto simp: convert_image_def split: if_splits sum.splits option.splits)
  then show ?thesis
    by (rule process_image_calls)
qed (use assms in \<open>simp_all add: handle_def\<close>)

text \<open>
  C8, as stated, fails: the set need not have three images. A reference file that is
  missing, or that cannot be opened or loaded, is skipped and the server starts all the
  same; with one of the three files on the disk it serves with one reference image, and
  with a second file that opens but ends before its pixel data it serves with two.
\<close>

theorem fewer_reference_images_counterexample:
  "main toy [''GEMINI_API_KEY'' \<mapsto> ''key''] disk_one =
     Serving ((ready [Toy ''RGB'' [1]])\<lparr>fs := disk_one\<rparr>) 5000 \<and>
   length (reference_images ((ready [Toy ''RGB'' [1]])\<lparr>fs := disk_one\<rparr>)) \<noteq> 3 \<and>
   Image_open toy [0x89] = Inr (Toy ''RGB'' []) \<and>
   main toy [''GEMINI_API_KEY'' \<mapsto> ''key''] disk_truncated =
     Serving ((ready [Toy ''RGB'' [1], Toy ''RGB'' [3]])\<lparr>fs := disk_truncated\<rparr>) 5000 \<and>
   length (reference_images
     ((ready [Toy ''RGB'' [1], Toy ''RGB'' [3]])\<lparr>fs := disk_truncated\<rparr>)) \<noteq> 3"
  by (simp add: main_def init_genai_def load_reference_images_def ref_paths_def load_one_def
        REFERENCE_FOLDER_def disk_one_def disk_truncated_def ready_def toy_def toy_open_def)

text \<open>
  C8, amended. The reference set of a started server holds at most three images: one
  for each of the three fixed files that exists, opens (converted to RGB where its mode
  is another one) and can be copied, in the order of the list, and so all three when
  each file does. It is loaded by the entry point, and no request changes it: after any
  sequence of requests the set is the one of the start, and every call that any request
  makes to the remote model begins with exactly these images.
\<close>

theorem reference_set_fixed_after_startup:
  assumes "main P env disk = Serving st0 port"
  shows "length (reference_images st0) \<le> 3 \<and>
         reference_images st0 = List.map_filter (reference_image P disk) ref_paths \<and>
         (reference_image P disk p = Some img \<longleftrightarrow>
            (\<exists>raw rgb. disk p = Some raw \<and> load_user_image P raw = Inr rgb \<and>
                       Image_copy P rgb = Inr img)) \<and>
         ((\<forall>p\<in>set ref_paths. \<exists>raw rgb copied.
              disk p = Some raw \<and> load_user_image P raw = Inr rgb \<and>
              Image_copy P rgb = Inr copied) \<longrightarrow>
            length (reference_images st0) = 3) \<and>
         reference_images (serve P history st0) = reference_images st0 \<and>
         (\<forall>call\<in>set (snd (snd (handle P A (serve P history st0) r))).
            \<exists>u. snd call = map Img (reference_images st0) @ [Img u, Txt prompt])"
proof -
  have refs: "reference_images st0 = List.map_filter (reference_image P disk) ref_paths"
    using main_Serving [OF assms] by (simp add: load_loop_map_filter)
  have le: "length (reference_images st0) \<le> 3"
    using length_map_filter_le [of "reference_image P disk" ref_paths]
    by (simp add: refs ref_paths_def)
  have all: "length (reference_images st0) = 3"
    if h: "\<forall>p\<in>set ref_paths. \<exists>raw rgb copied.
             disk p = Some raw \<and> load_user_image P raw = Inr rgb \<and>
             Image_copy P rgb = Inr copied"
  proof -
    have "\<forall>p\<in>set ref_paths. reference_image P disk p \<noteq> None"
    proof
      fix p
      assume "p \<in> set ref_paths"
      with h obtain raw rgb copied where
        "disk p = Some raw \<and> load_user_image P raw = Inr rgb \<and> Image_copy P rgb = Inr copied"
        by blast
      then have "reference_image P disk p = Some copied"
        by (simp add: reference_image_def)
      then show "reference_image P disk p \<noteq> None"
        by simp
    qed
    then have "length (List.map_filter (reference_image P disk) ref_paths) = length ref_paths"
      by (rule length_map_filter_all)
    then show ?thesis
      by (simp add: refs ref_paths_def)
  qed
  have same: "reference_images (serve P history st0) = reference_images st0"
    by (simp add: serve_frame)
  have calls: "\<exists>u. snd call = map Img (reference_images st0) @ [Img u, Txt prompt]"
    if "call \<in> set (snd (snd (handle P A (serve P history st0) r)))" for call
    using handle_calls [OF that] by (simp add: same)
  show ?thesis
    using refs le all same calls reference_image_Some [of P disk p img] by blast
qed

lemma main_toy_three:
  "main toy [''GEMINI_API_KEY'' \<mapsto> ''key''] disk_three =
     Serving ((ready [Toy ''RGB'' [1], Toy ''RGB'' [2], Toy ''RGB'' [3]])\<lparr>fs := disk_three\<rparr>) 5000"
  by (simp add: main_def init_genai_def load_reference_images_def ref_paths_def load_one_def
        REFERENCE_FOLDER_def disk_three_def ready_def toy_def toy_open_def)

theorem reference_set_fixed_after_startup_witness:
  "main toy [''GEMINI_API_KEY'' \<mapsto> ''key''] disk_three =
     Serving ((ready [Toy ''RGB'' [1], Toy ''RGB'' [2], Toy ''RGB'' [3]])\<lparr>fs := disk_three\<rparr>) 5000 \<and>
   reference_image toy disk_three ''public/reference-avatar-3.png'' = Some (Toy ''RGB'' [2]) \<and>
   List.map_filter (reference_image toy disk_three) ref_paths =
     [Toy ''RGB'' [1], Toy ''RGB'' [2], Toy ''RGB'' [3]] \<and>
   length (reference_images
     ((ready [Toy ''RGB'' [1], Toy ''RGB'' [2], Toy ''RGB'' [3]])\<lparr>fs := disk_three\<rparr>)) = 3 \<and>
   reference_images
     (serve toy
        [(replying (Inr (one_candidate [inline_part (Bytes [0x89, 7])])),
          POST_convert (posting ''me.JPG'' [0xFF, 5])),
         (replying (Inl (Exception ''unused'')), GET_health)]
        ((ready [Toy ''RGB'' [1], Toy ''RGB'' [2], Toy ''RGB'' [3]])\<lparr>fs := disk_three\<rparr>)) =
     reference_images
       ((ready [Toy ''RGB'' [1], Toy ''RGB'' [2], Toy ''RGB'' [3]])\<lparr>fs := disk_three\<rparr>)"
proof -
  let ?history =
    "[(replying (Inr (one_candidate [inline_part (Bytes [0x89, 7])])),
       POST_convert (posting ''me.JPG'' [0xFF, 5])),
      (replying (Inl (Exception ''unused'')), GET_health)]"
  let ?st = "(ready [Toy ''RGB'' [1], Toy ''RGB'' [2], Toy ''RGB'' [3]])\<lparr>fs := disk_three\<rparr>"
  note t = reference_set_fixed_after_startup
             [OF main_toy_three, of "''public/reference-avatar-3.png''" "Toy ''RGB'' [2]"
                ?history "replying (Inl (Exception ''unused''))" GET_index]
  have h: "\<forall>p\<in>set ref_paths. \<exists>raw rgb copied.
             disk_three p = Some raw \<and> load_user_image toy raw = Inr rgb \<and>
             Image_copy toy rgb = Inr copied"
    by (simp add: ref_paths_def REFERENCE_FOLDER_def disk_three_def load_user_image_def
          toy_def toy_open_def)
  have one: "\<exists>raw rgb. disk_three ''public/reference-avatar-3.png'' = Some raw \<and>
               load_user_image toy raw = Inr rgb \<and> Image_copy toy rgb = Inr (Toy ''RGB'' [2])"
    by (simp add: disk_three_def load_user_image_def toy_def toy_open_def)
  have refs: "reference_images ?st = [Toy ''RGB'' [1], Toy ''RGB'' [2], Toy ''RGB'' [3]]"
    by (simp add: ready_def)
  from t h one have
    "reference_image toy disk_three ''public/reference-avatar-3.png'' = Some (Toy ''RGB'' [2])"
    "reference_images ?st = List.map_filter (reference_image toy disk_three) ref_paths"
    "length (reference_images ?st) = 3"
    "reference_images (serve toy ?history ?st) = reference_images ?st"
    by blast+
  then show ?thesis
    using main_toy_three refs by simp
qed

end
